theory Spec2Isabelle
  imports Main
begin

section \<open>JavaScript values seen by the button\<close>

text \<open>
  The component only ever asks two things of a value it did not create itself:
  whether it is truthy (\<^verbatim>\<open>a || b\<close>, \<^verbatim>\<open>promise && ...\<close>, \<^verbatim>\<open>if (promise)\<close>) and whether
  its \<^verbatim>\<open>then\<close> property is a function. An object is therefore represented by what
  its \<^verbatim>\<open>then\<close> property holds; a thenable carries the identity of the promise whose
  settlement will later be delivered. Numbers are integral here (no \<^verbatim>\<open>NaN\<close>).
\<close>

datatype then_prop = ThenAbsent | ThenNotFunction | ThenFunction nat

datatype js_value =
    JUndefined
  | JNull
  | JBool bool
  | JNum int
  | JStr string
  | JObject then_prop

fun truthy :: "js_value \<Rightarrow> bool" where
  "truthy JUndefined = False"
| "truthy JNull = False"
| "truthy (JBool b) = b"
| "truthy (JNum n) = (n \<noteq> 0)"
| "truthy (JStr s) = (s \<noteq> [])"
| "truthy (JObject t) = True"

text \<open>\<^verbatim>\<open>a || b\<close>: the left operand when it is truthy, the right one otherwise.\<close>

definition js_or :: "js_value \<Rightarrow> js_value \<Rightarrow> js_value" where
  "js_or a b = (if truthy a then a else b)"

text \<open>
  \<^verbatim>\<open>typeof v.then === 'function'\<close> for a value \<open>v\<close> that is already known to be truthy:
  primitives have no \<^verbatim>\<open>then\<close> property. The result names the promise.
\<close>

fun then_function :: "js_value \<Rightarrow> nat option" where
  "then_function (JObject (ThenFunction p)) = Some p"
| "then_function v = None"

text \<open>Reading a property of an arguments or properties object: a missing key is \<^verbatim>\<open>undefined\<close>.\<close>

definition prop_get :: "(string \<rightharpoonup> js_value) \<Rightarrow> string \<Rightarrow> js_value" where
  "prop_get obj k = (case obj k of None \<Rightarrow> JUndefined | Some v \<Rightarrow> v)"

section \<open>The button component (\<^verbatim>\<open>addon/components/bs-button.js\<close>)\<close>

text \<open>
  What the external \<^verbatim>\<open>onClick\<close> closure does when it is called with the button's
  value: it throws, or it returns a value. While it runs it may tear the component
  down (the handler re-reads \<^verbatim>\<open>isDestroyed\<close> after the call).
\<close>

datatype outcome = Throws | Returns (returned: js_value) (destroys: bool)

datatype 'v on_click = OnClickNull | OnClickUndefined | OnClickFn "'v \<Rightarrow> outcome"

text \<open>
  The fields of the class. \<open>u_disabled\<close> is the argument \<^verbatim>\<open>_disabled\<close> (\<open>None\<close> is its
  default \<^verbatim>\<open>null\<close>); \<open>args\<close> is \<^verbatim>\<open>this.args\<close> as far as the getters read it by name
  (\<^verbatim>\<open>icon\<close> and the \<^verbatim>\<open>...Text\<close> labels); \<open>btn_value\<close> is \<^verbatim>\<open>value\<close>; \<open>state\<close> is the tracked
  string, \<^verbatim>\<open>'default'\<close> at creation.
\<close>

record 'v button =
  args :: "string \<rightharpoonup> js_value"
  u_disabled :: "bool option"
  active :: bool
  bubble :: bool
  iconActive :: js_value
  iconInactive :: js_value
  btn_value :: "'v"
  preventConcurrency :: bool
  state :: string
  onClick :: "'v on_click"
  isDestroyed :: bool

definition isPending :: "'v button \<Rightarrow> bool" where
  "isPending b = (state b = ''pending'')"

definition isFulfilled :: "'v button \<Rightarrow> bool" where
  "isFulfilled b = (state b = ''fulfilled'')"

definition isRejected :: "'v button \<Rightarrow> bool" where
  "isRejected b = (state b = ''rejected'')"

definition isSettled :: "'v button \<Rightarrow> bool" where
  "isSettled b = (isFulfilled b \<or> isRejected b)"

text \<open>The getter \<^verbatim>\<open>__disabled\<close>.\<close>

definition uu_disabled :: "'v button \<Rightarrow> bool" where
  "uu_disabled b =
     (case u_disabled b of
        Some d \<Rightarrow> d
      | None \<Rightarrow> isPending b \<and> preventConcurrency b)"

text \<open>The getter \<^verbatim>\<open>icon\<close>.\<close>

definition icon :: "'v button \<Rightarrow> js_value" where
  "icon b = js_or (prop_get (args b) ''icon'') (if active b then iconActive b else iconInactive b)"

text \<open>The getter \<^verbatim>\<open>text\<close>.\<close>

definition btn_text :: "'v button \<Rightarrow> js_value" where
  "btn_text b = js_or (prop_get (args b) (state b @ ''Text'')) (prop_get (args b) ''defaultText'')"

definition resetState :: "'v button \<Rightarrow> 'v button" where
  "resetState b = b\<lparr>state := ''default''\<rparr>"

subsection \<open>The click handler and its surroundings\<close>

text \<open>The DOM event, as far as the handler touches it.\<close>

record event =
  propagationStopped :: bool

definition stopPropagation :: "event \<Rightarrow> event" where
  "stopPropagation e = e\<lparr>propagationStopped := True\<rparr>"

text \<open>
  The component together with what an observer outside it can see: \<open>calls\<close> lists the
  arguments of every invocation of \<^verbatim>\<open>onClick\<close>, oldest first, and \<open>thens\<close> the promises
  on which the handler has registered its two settlement handlers with \<^verbatim>\<open>then\<close>, one
  entry per registration.
\<close>

record 'v world =
  button :: "'v button"
  calls :: "'v list"
  thens :: "nat list"

datatype error = CallbackThrew | TypeError | SetOnDestroyed

definition set_state :: "string \<Rightarrow> 'v world \<Rightarrow> 'v world" where
  "set_state s w = w\<lparr>button := (button w)\<lparr>state := s\<rparr>\<rparr>"

text \<open>The last statement of \<^verbatim>\<open>handleClick\<close>: \<^verbatim>\<open>if (!this.bubble) e.stopPropagation()\<close>.\<close>

definition propagate :: "'v world \<Rightarrow> event \<Rightarrow> event" where
  "propagate w e = (if \<not> bubble (button w) then stopPropagation e else e)"

text \<open>
  The test \<^verbatim>\<open>promise && typeof promise.then === 'function'\<close> of line 406; the result
  names the promise of a thenable.
\<close>

definition thenable :: "js_value \<Rightarrow> nat option" where
  "thenable promise = (if truthy promise then then_function promise else None)"

text \<open>
  Lines 406 to 418, after \<^verbatim>\<open>onClick\<close> has returned \<open>promise\<close>: a thenable on a live
  component sets the state to \<^verbatim>\<open>'pending'\<close> and registers the settlement handlers.
\<close>

definition track :: "'v world \<Rightarrow> js_value \<Rightarrow> 'v world" where
  "track w promise =
     (case thenable promise of
        Some p \<Rightarrow>
          (if \<not> isDestroyed (button w) then (set_state ''pending'' w)\<lparr>thens := thens w @ [p]\<rparr>
           else w)
      | None \<Rightarrow> w)"

text \<open>
  \<^verbatim>\<open>handleClick(e)\<close>. A normal return gives the world and the event as the handler
  leaves them; an exception thrown by \<^verbatim>\<open>onClick\<close> is not caught and leaves the
  handler before the propagation step.
\<close>

definition handleClick ::
  "'v world \<Rightarrow> event \<Rightarrow> (error \<times> 'v world \<times> event) + ('v world \<times> event)" where
  "handleClick w e =
     (case onClick (button w) of
        OnClickNull \<Rightarrow> Inr (w, e)
      | OnClickUndefined \<Rightarrow> Inr (w, e)
      | OnClickFn f \<Rightarrow>
          (if \<not> preventConcurrency (button w) \<or> \<not> isPending (button w) then
             (let w1 = w\<lparr>calls := calls w @ [btn_value (button w)]\<rparr> in
              case f (btn_value (button w)) of
                Throws \<Rightarrow> Inl (CallbackThrew, w1, e)
              | Returns promise d \<Rightarrow>
                  (let w2 = w1\<lparr>button := (button w1)\<lparr>isDestroyed := isDestroyed (button w1) \<or> d\<rparr>\<rparr>;
                       w3 = track w2 promise
                   in Inr (w3, propagate w3 e)))
           else Inr (w, propagate w e)))"

text \<open>The world a run of \<^verbatim>\<open>handleClick\<close> leaves behind, whether it returned or threw.\<close>

definition world_of :: "(error \<times> 'v world \<times> event) + ('v world \<times> event) \<Rightarrow> 'v world" where
  "world_of r = (case r of Inl (err, w, e) \<Rightarrow> w | Inr (w, e) \<Rightarrow> w)"

text \<open>
  The two handlers passed to \<^verbatim>\<open>promise.then\<close>, and the delivery of a settlement: every
  registration on the settled promise runs its handler once, in registration order,
  and is then spent.
\<close>

definition onFulfilled :: "'v world \<Rightarrow> 'v world" where
  "onFulfilled w = (if \<not> isDestroyed (button w) then set_state ''fulfilled'' w else w)"

definition onRejected :: "'v world \<Rightarrow> 'v world" where
  "onRejected w = (if \<not> isDestroyed (button w) then set_state ''rejected'' w else w)"

datatype settlement = Fulfil | Reject

definition handler :: "settlement \<Rightarrow> 'v world \<Rightarrow> 'v world" where
  "handler s = (case s of Fulfil \<Rightarrow> onFulfilled | Reject \<Rightarrow> onRejected)"

definition settle :: "nat \<Rightarrow> settlement \<Rightarrow> 'v world \<Rightarrow> 'v world" where
  "settle p s w =
     ((handler s) ^^ (count_list (thens w) p)) (w\<lparr>thens := filter (\<lambda>q. q \<noteq> p) (thens w)\<rparr>)"

text \<open>Teardown of the component by the framework.\<close>

definition destroy :: "'v world \<Rightarrow> 'v world" where
  "destroy w = w\<lparr>button := (button w)\<lparr>isDestroyed := True\<rparr>\<rparr>"

section \<open>The earlier button component (the classic \<^verbatim>\<open>Ember.Component.extend\<close> source)\<close>

text \<open>
  The names of this component carry the suffix \<open>_v0\<close>. \<open>props_v0\<close> holds the label
  properties, which \<^verbatim>\<open>text\<close> looks up by a computed name; \<open>isDestroyed_v0\<close> is the flag of
  \<^verbatim>\<open>Ember.Component\<close>, which this source never reads. \<^verbatim>\<open>get\<close> is a plain read of a
  property. \<^verbatim>\<open>click\<close>, its \<^verbatim>\<open>callback\<close> and the reset run on the live component that
  is handling the click or the signal, where \<^verbatim>\<open>set\<close> is a plain write; the two functions
  handed to \<^verbatim>\<open>promise.then\<close> run later, possibly after teardown, and for them \<^verbatim>\<open>set\<close> is
  modelled with what it does to a destroyed object (\<open>set_v0\<close> below).
\<close>

record 'v button_v0 =
  props_v0 :: "string \<rightharpoonup> js_value"
  disabled_v0 :: bool
  active_v0 :: bool
  block_v0 :: bool
  toggle_v0 :: bool
  iconActive_v0 :: js_value
  iconInactive_v0 :: js_value
  value_v0 :: "'v"
  textState_v0 :: string
  reset_v0 :: js_value
  isDestroyed_v0 :: bool

text \<open>\<^verbatim>\<open>getWithDefault(key, d)\<close>: the property, or \<open>d\<close> when the property is \<^verbatim>\<open>undefined\<close>.\<close>

definition getWithDefault :: "(string \<rightharpoonup> js_value) \<Rightarrow> string \<Rightarrow> js_value \<Rightarrow> js_value" where
  "getWithDefault obj k d = (case prop_get obj k of JUndefined \<Rightarrow> d | v \<Rightarrow> v)"


definition text_v0 :: "'v button_v0 \<Rightarrow> js_value" where
  "text_v0 b =
     getWithDefault (props_v0 b) (textState_v0 b @ ''Text'') (prop_get (props_v0 b) ''defaultText'')"

definition resetState_v0 :: "'v button_v0 \<Rightarrow> 'v button_v0" where
  "resetState_v0 b = b\<lparr>textState_v0 := ''default''\<rparr>"

definition resetObserver_v0 :: "'v button_v0 \<Rightarrow> 'v button_v0" where
  "resetObserver_v0 b = (if truthy (reset_v0 b) then resetState_v0 b else b)"

definition toggleProperty_active :: "'v button_v0 \<Rightarrow> 'v button_v0" where
  "toggleProperty_active b = b\<lparr>active_v0 := \<not> active_v0 b\<rparr>"

text \<open>
  The component with its surroundings. \<open>action_v0\<close> is the handler bound to the
  \<^verbatim>\<open>action\<close> action (\<open>None\<close>: nothing bound, \<^verbatim>\<open>sendAction\<close> does nothing); given the value
  and the event it tells which arguments it passes to the \<^verbatim>\<open>callback\<close> it received, in
  order, while it runs. \<open>sent_v0\<close> lists every \<^verbatim>\<open>sendAction\<close> that reached a handler: the
  value sent and the component's \<^verbatim>\<open>active\<close> flag at that moment. \<open>thens_v0\<close> lists the
  registrations made with \<^verbatim>\<open>promise.then\<close>. A bound handler is taken to return; the
  only exception on this path is the one \<^verbatim>\<open>callback\<close> itself can raise. \<open>raised_v0\<close>
  lists the errors raised inside settlement handlers, oldest first: an exception in a
  function registered with \<^verbatim>\<open>then\<close> has no caller to return to and is reported by the
  promise that ran it.
\<close>

record 'v world_v0 =
  comp_v0 :: "'v button_v0"
  action_v0 :: "('v \<Rightarrow> event \<Rightarrow> js_value list) option"
  sent_v0 :: "('v \<times> bool) list"
  thens_v0 :: "nat list"
  raised_v0 :: "error list"

definition set_textState :: "string \<Rightarrow> 'v world_v0 \<Rightarrow> 'v world_v0" where
  "set_textState s w = w\<lparr>comp_v0 := (comp_v0 w)\<lparr>textState_v0 := s\<rparr>\<rparr>"

text \<open>
  The closure \<^verbatim>\<open>callback\<close> of \<^verbatim>\<open>click\<close>. Only truthiness is tested before
  \<^verbatim>\<open>promise.then(...)\<close> is called, so a truthy value without a \<^verbatim>\<open>then\<close> function
  raises a \<^verbatim>\<open>TypeError\<close> after the state has been set.
\<close>

definition callback_v0 :: "js_value \<Rightarrow> 'v world_v0 \<Rightarrow> (error \<times> 'v world_v0) + 'v world_v0" where
  "callback_v0 promise w =
     (if truthy promise then
        (let w1 = set_textState ''pending'' w in
         case then_function promise of
           Some p \<Rightarrow> Inr (w1\<lparr>thens_v0 := thens_v0 w1 @ [p]\<rparr>)
         | None \<Rightarrow> Inl (TypeError, w1))
      else Inr w)"

text \<open>The handler's calls of \<^verbatim>\<open>callback\<close>, one after the other; an exception ends them.\<close>

fun run_callbacks :: "js_value list \<Rightarrow> 'v world_v0 \<Rightarrow> (error \<times> 'v world_v0) + 'v world_v0" where
  "run_callbacks [] w = Inr w"
| "run_callbacks (p # ps) w =
     (case callback_v0 p w of
        Inl err \<Rightarrow> Inl err
      | Inr w' \<Rightarrow> run_callbacks ps w')"

text \<open>\<^verbatim>\<open>this.sendAction('action', this.get('value'), evt, callback)\<close>.\<close>

definition sendAction :: "'v world_v0 \<Rightarrow> event \<Rightarrow> (error \<times> 'v world_v0) + 'v world_v0" where
  "sendAction w evt =
     (case action_v0 w of
        None \<Rightarrow> Inr w
      | Some h \<Rightarrow>
          run_callbacks (h (value_v0 (comp_v0 w)) evt)
            (w\<lparr>sent_v0 := sent_v0 w @ [(value_v0 (comp_v0 w), active_v0 (comp_v0 w))]\<rparr>))"

definition click_v0 :: "'v world_v0 \<Rightarrow> event \<Rightarrow> (error \<times> 'v world_v0) + 'v world_v0" where
  "click_v0 w evt =
     (let w1 = (if toggle_v0 (comp_v0 w) then w\<lparr>comp_v0 := toggleProperty_active (comp_v0 w)\<rparr> else w)
      in sendAction w1 evt)"

text \<open>The world a run of \<^verbatim>\<open>click\<close> leaves behind, whether it returned or threw.\<close>

definition world_of_v0 :: "(error \<times> 'v world_v0) + 'v world_v0 \<Rightarrow> 'v world_v0" where
  "world_of_v0 r = (case r of Inl (err, w) \<Rightarrow> w | Inr w \<Rightarrow> w)"

text \<open>
  \<^verbatim>\<open>that.set('textState', s)\<close> as the settlement handlers reach it. Ember's \<^verbatim>\<open>set\<close> on a
  destroyed object raises (\<^verbatim>\<open>calling set on destroyed object\<close>) and writes nothing; on
  a live object it writes the property.
\<close>

definition set_v0 :: "string \<Rightarrow> 'v world_v0 \<Rightarrow> (error \<times> 'v world_v0) + 'v world_v0" where
  "set_v0 s w =
     (if isDestroyed_v0 (comp_v0 w) then Inl (SetOnDestroyed, w)
      else Inr (set_textState s w))"

text \<open>
  The two functions passed to \<^verbatim>\<open>promise.then\<close> (lines 143 to 148). Neither reads
  \<^verbatim>\<open>isDestroyed\<close>: each calls \<^verbatim>\<open>set\<close> at once.
\<close>

definition onResolved_v0 :: "'v world_v0 \<Rightarrow> (error \<times> 'v world_v0) + 'v world_v0" where
  "onResolved_v0 w = set_v0 ''resolved'' w"

definition onRejected_v0 :: "'v world_v0 \<Rightarrow> (error \<times> 'v world_v0) + 'v world_v0" where
  "onRejected_v0 w = set_v0 ''rejected'' w"

definition handler_v0 :: "settlement \<Rightarrow> 'v world_v0 \<Rightarrow> (error \<times> 'v world_v0) + 'v world_v0" where
  "handler_v0 s = (case s of Fulfil \<Rightarrow> onResolved_v0 | Reject \<Rightarrow> onRejected_v0)"

text \<open>
  The promise running one registered handler: what the handler raises is recorded in
  \<open>raised_v0\<close>. A settlement runs the handler of every registration on the settled
  promise once, in registration order, and the registrations are then spent.
\<close>

definition run_handler_v0 :: "settlement \<Rightarrow> 'v world_v0 \<Rightarrow> 'v world_v0" where
  "run_handler_v0 s w =
     (case handler_v0 s w of
        Inl (err, w') \<Rightarrow> w'\<lparr>raised_v0 := raised_v0 w' @ [err]\<rparr>
      | Inr w' \<Rightarrow> w')"

definition settle_v0 :: "nat \<Rightarrow> settlement \<Rightarrow> 'v world_v0 \<Rightarrow> 'v world_v0" where
  "settle_v0 p s w =
     ((run_handler_v0 s) ^^ (count_list (thens_v0 w) p))
       (w\<lparr>thens_v0 := filter (\<lambda>q. q \<noteq> p) (thens_v0 w)\<rparr>)"

definition destroy_v0 :: "'v world_v0 \<Rightarrow> 'v world_v0" where
  "destroy_v0 w = w\<lparr>comp_v0 := (comp_v0 w)\<lparr>isDestroyed_v0 := True\<rparr>\<rparr>"

section \<open>The state machine of the specification\<close>

text \<open>
  The specification's \<open>ButtonState\<close> and the operations of its StateMachine, written
  from its section 4.1, and how each component's state string is read as one of the
  four states.
\<close>

datatype ButtonState = Idle | Pending | Fulfilled | Rejected

definition transitionToPending :: "ButtonState \<Rightarrow> ButtonState" where
  "transitionToPending S = Pending"

definition settleFulfilled :: "ButtonState \<Rightarrow> ButtonState" where
  "settleFulfilled S = Fulfilled"

definition settleRejected :: "ButtonState \<Rightarrow> ButtonState" where
  "settleRejected S = Rejected"

definition reset :: "ButtonState \<Rightarrow> ButtonState" where
  "reset S = Idle"

definition settled :: "settlement \<Rightarrow> ButtonState \<Rightarrow> ButtonState" where
  "settled s = (case s of Fulfil \<Rightarrow> settleFulfilled | Reject \<Rightarrow> settleRejected)"

definition state_name :: "ButtonState \<Rightarrow> string" where
  "state_name S =
     (case S of Idle \<Rightarrow> ''default'' | Pending \<Rightarrow> ''pending''
      | Fulfilled \<Rightarrow> ''fulfilled'' | Rejected \<Rightarrow> ''rejected'')"

definition textState_name :: "ButtonState \<Rightarrow> string" where
  "textState_name S =
     (case S of Idle \<Rightarrow> ''default'' | Pending \<Rightarrow> ''pending''
      | Fulfilled \<Rightarrow> ''resolved'' | Rejected \<Rightarrow> ''rejected'')"

section \<open>Scenarios\<close>

text \<open>
  The key under which \<^verbatim>\<open>text\<close> looks a state's label up: the state's name followed by
  \<^verbatim>\<open>Text\<close>.
\<close>

definition text_key :: "ButtonState \<Rightarrow> string" where
  "text_key S = state_name S @ ''Text''"

text \<open>
  Concrete inputs, after the scenarios of the specification's section 8. The save
  button has the class's defaults and a callback that returns promise 1; the star
  button is the earlier component with \<^verbatim>\<open>toggle\<close> on and an action that hands promise 1
  to its callback.
\<close>

definition save_args :: "string \<rightharpoonup> js_value" where
  "save_args = [''defaultText'' \<mapsto> JStr ''Save'', ''pendingText'' \<mapsto> JStr ''Saving'',
                ''fulfilledText'' \<mapsto> JStr ''Saved'']"

definition save_button :: "nat button" where
  "save_button =
     \<lparr>args = save_args, u_disabled = None, active = False, bubble = False,
      iconActive = JNull, iconInactive = JNull, btn_value = 0, preventConcurrency = True,
      state = ''default'', onClick = OnClickFn (\<lambda>v. Returns (JObject (ThenFunction 1)) False),
      isDestroyed = False\<rparr>"

definition save_world :: "nat world" where
  "save_world = \<lparr>button = save_button, calls = [], thens = []\<rparr>"

definition click_event :: event where
  "click_event = \<lparr>propagationStopped = False\<rparr>"

definition no_callback_world :: "nat world" where
  "no_callback_world = save_world\<lparr>button := save_button\<lparr>onClick := OnClickNull\<rparr>\<rparr>"

definition undefined_callback_world :: "nat world" where
  "undefined_callback_world = save_world\<lparr>button := save_button\<lparr>onClick := OnClickUndefined\<rparr>\<rparr>"

definition plain_world :: "nat world" where
  "plain_world =
     save_world\<lparr>button := save_button\<lparr>onClick := OnClickFn (\<lambda>v. Returns JUndefined False)\<rparr>\<rparr>"

definition disabled_world :: "nat world" where
  "disabled_world = save_world\<lparr>button := save_button\<lparr>u_disabled := Some True\<rparr>\<rparr>"

definition empty_label_button :: "nat button" where
  "empty_label_button =
     save_button\<lparr>args := save_args(''pendingText'' \<mapsto> JStr []), state := ''pending''\<rparr>"

definition empty_icon_button :: "nat button" where
  "empty_icon_button =
     save_button\<lparr>args := [''icon'' \<mapsto> JStr []], active := True,
                 iconActive := JStr ''star-filled'', iconInactive := JStr ''star-empty''\<rparr>"

definition torn_down :: "nat world" where
  "torn_down = destroy (world_of (handleClick save_world click_event))"

definition star_button :: "nat button_v0" where
  "star_button =
     \<lparr>props_v0 = [''defaultText'' \<mapsto> JNull], disabled_v0 = False, active_v0 = False,
      block_v0 = False, toggle_v0 = True, iconActive_v0 = JStr ''star-filled'',
      iconInactive_v0 = JStr ''star-empty'', value_v0 = 0, textState_v0 = ''default'',
      reset_v0 = JNull, isDestroyed_v0 = False\<rparr>"

definition star_world :: "nat world_v0" where
  "star_world =
     \<lparr>comp_v0 = star_button, action_v0 = Some (\<lambda>v evt. [JObject (ThenFunction 1)]),
      sent_v0 = [], thens_v0 = [], raised_v0 = []\<rparr>"

definition torn_down_v0 :: "nat world_v0" where
  "torn_down_v0 = destroy_v0 (world_of_v0 (click_v0 star_world click_event))"

lemmas save_scenario = save_args_def save_button_def save_world_def click_event_def

section \<open>Facts about the handlers\<close>

subsection \<open>Settlement handlers\<close>

lemma handler_funpow_destroyed:
  "isDestroyed (button w) \<Longrightarrow> ((handler s) ^^ n) w = w"
  by (induction n) (simp_all add: handler_def onFulfilled_def onRejected_def split: settlement.splits)

lemma handler_live:
  "\<not> isDestroyed (button w) \<Longrightarrow>
     handler s w = set_state (case s of Fulfil \<Rightarrow> ''fulfilled'' | Reject \<Rightarrow> ''rejected'') w"
  by (simp add: handler_def onFulfilled_def onRejected_def split: settlement.splits)

lemma handler_funpow_live:
  "\<not> isDestroyed (button w) \<Longrightarrow> 0 < n \<Longrightarrow>
     ((handler s) ^^ n) w = set_state (case s of Fulfil \<Rightarrow> ''fulfilled'' | Reject \<Rightarrow> ''rejected'') w"
proof (induction n)
  case 0
  then show ?case by simp
next
  case (Suc n)
  show ?case
  proof (cases "n = 0")
    case True
    with Suc.prems show ?thesis by (simp add: handler_live)
  next
    case False
    with Suc have "((handler s) ^^ n) w
        = set_state (case s of Fulfil \<Rightarrow> ''fulfilled'' | Reject \<Rightarrow> ''rejected'') w"
      by simp
    with Suc.prems show ?thesis
      by (simp add: handler_live set_state_def)
  qed
qed

text \<open>
  A settlement that arrives after the component of \<^verbatim>\<open>bs-button.js\<close> was torn down
  changes neither the component nor the record of calls, whatever was registered.
\<close>

lemma settle_after_teardown:
  "isDestroyed (button w) \<Longrightarrow> button (settle p s w) = button w \<and> calls (settle p s w) = calls w"
  by (simp add: settle_def handler_funpow_destroyed)

lemma settle_torn_down:
  "isDestroyed (button torn_down)
   \<and> thens torn_down = [1]
   \<and> state (button torn_down) = ''pending''
   \<and> button (settle 1 Fulfil torn_down) = button torn_down
   \<and> button (settle 1 Reject torn_down) = button torn_down"
  by (simp add: save_scenario torn_down_def destroy_def world_of_def handleClick_def
      isPending_def track_def
      thenable_def set_state_def Let_def settle_def handler_def onFulfilled_def onRejected_def)

lemma settle_live_registered:
  assumes "\<not> isDestroyed (button w)" and "p \<in> set (thens w)"
  shows "state (button (settle p s w))
           = (case s of Fulfil \<Rightarrow> ''fulfilled'' | Reject \<Rightarrow> ''rejected'')"
proof -
  have "0 < count_list (thens w) p"
    using assms(2) count_list_0_iff [of "thens w" p] by auto
  moreover have "\<not> isDestroyed (button (w\<lparr>thens := filter (\<lambda>q. q \<noteq> p) (thens w)\<rparr>))"
    using assms(1) by simp
  ultimately show ?thesis
    by (simp add: settle_def handler_funpow_live set_state_def)
qed

lemma run_handler_v0_live:
  "\<not> isDestroyed_v0 (comp_v0 w) \<Longrightarrow>
     run_handler_v0 s w
       = set_textState (case s of Fulfil \<Rightarrow> ''resolved'' | Reject \<Rightarrow> ''rejected'') w"
  by (simp add: run_handler_v0_def handler_v0_def onResolved_v0_def onRejected_v0_def set_v0_def
      split: settlement.splits)

lemma run_handler_v0_funpow_live:
  "\<not> isDestroyed_v0 (comp_v0 w) \<Longrightarrow> 0 < n \<Longrightarrow>
     ((run_handler_v0 s) ^^ n) w
       = set_textState (case s of Fulfil \<Rightarrow> ''resolved'' | Reject \<Rightarrow> ''rejected'') w"
proof (induction n)
  case 0
  then show ?case by simp
next
  case (Suc n)
  show ?case
  proof (cases "n = 0")
    case True
    with Suc.prems show ?thesis by (simp add: run_handler_v0_live)
  next
    case False
    with Suc have "((run_handler_v0 s) ^^ n) w
        = set_textState (case s of Fulfil \<Rightarrow> ''resolved'' | Reject \<Rightarrow> ''rejected'') w"
      by simp
    with Suc.prems show ?thesis
      by (simp add: run_handler_v0_live set_textState_def)
  qed
qed

lemma settle_v0_registered:
  assumes "\<not> isDestroyed_v0 (comp_v0 w)" and "p \<in> set (thens_v0 w)"
  shows "textState_v0 (comp_v0 (settle_v0 p s w))
           = (case s of Fulfil \<Rightarrow> ''resolved'' | Reject \<Rightarrow> ''rejected'')"
proof -
  have "0 < count_list (thens_v0 w) p"
    using assms(2) count_list_0_iff [of "thens_v0 w" p] by auto
  moreover have
    "\<not> isDestroyed_v0 (comp_v0 (w\<lparr>thens_v0 := filter (\<lambda>q. q \<noteq> p) (thens_v0 w)\<rparr>))"
    using assms(1) by simp
  ultimately show ?thesis
    by (simp add: settle_v0_def run_handler_v0_funpow_live set_textState_def)
qed

text \<open>
  After teardown every handler the earlier component registered raises when it is
  run, once per registration, and the component itself is left as it was.
\<close>

lemma run_handler_v0_destroyed:
  "isDestroyed_v0 (comp_v0 w) \<Longrightarrow>
     run_handler_v0 s w = w\<lparr>raised_v0 := raised_v0 w @ [SetOnDestroyed]\<rparr>"
  by (simp add: run_handler_v0_def handler_v0_def onResolved_v0_def onRejected_v0_def set_v0_def
      split: settlement.splits)

lemma run_handler_v0_funpow_destroyed:
  "isDestroyed_v0 (comp_v0 w) \<Longrightarrow>
     ((run_handler_v0 s) ^^ n) w = w\<lparr>raised_v0 := raised_v0 w @ replicate n SetOnDestroyed\<rparr>"
proof (induction n)
  case 0
  then show ?case by simp
next
  case (Suc n)
  then have "((run_handler_v0 s) ^^ n) w
      = w\<lparr>raised_v0 := raised_v0 w @ replicate n SetOnDestroyed\<rparr>"
    by simp
  with Suc.prems show ?case
    by (simp add: run_handler_v0_destroyed replicate_append_same)
qed

lemma settle_v0_destroyed:
  assumes "isDestroyed_v0 (comp_v0 w)"
  shows "comp_v0 (settle_v0 p s w) = comp_v0 w
       \<and> raised_v0 (settle_v0 p s w)
           = raised_v0 w @ replicate (count_list (thens_v0 w) p) SetOnDestroyed"
  using assms by (simp add: settle_v0_def run_handler_v0_funpow_destroyed)

subsection \<open>The click handler of \<^verbatim>\<open>bs-button.js\<close>\<close>

text \<open>The concurrency guard alone decides the suppression; no other field is read.\<close>

lemma handleClick_guard:
  assumes "preventConcurrency (button w)" and "isPending (button w)"
  shows "world_of (handleClick w e) = w \<and> (\<exists>e'. handleClick w e = Inr (w, e'))"
  using assms by (cases "onClick (button w)") (simp_all add: handleClick_def world_of_def)

lemma handleClick_invokes:
  assumes "onClick (button w) = OnClickFn f"
    and "\<not> (preventConcurrency (button w) \<and> isPending (button w))"
  shows "calls (world_of (handleClick w e)) = calls w @ [btn_value (button w)]"
proof (cases "f (btn_value (button w))")
  case Throws
  with assms show ?thesis by (auto simp: handleClick_def world_of_def)
next
  case (Returns v d)
  with assms show ?thesis
    by (auto simp: handleClick_def world_of_def track_def set_state_def Let_def
        split: option.splits)
qed

lemma bubble_track: "bubble (button (track w v)) = bubble (button w)"
  by (simp add: track_def set_state_def split: option.splits)

lemma handleClick_thenable:
  assumes "\<not> isDestroyed (button w)" and "onClick (button w) = OnClickFn f"
    and "f (btn_value (button w)) = Returns (JObject (ThenFunction p)) False"
    and "\<not> (preventConcurrency (button w) \<and> isPending (button w))"
  shows "handleClick w e
           = Inr ((set_state ''pending'' w)\<lparr>calls := calls w @ [btn_value (button w)],
                                            thens := thens w @ [p]\<rparr>,
                  propagate w e)"
  using assms
  by (auto simp: handleClick_def track_def thenable_def set_state_def propagate_def Let_def)

text \<open>
  Scenarios A and B of the specification: the label and the derived flags of the save
  button before the click, after it, and after the promise fulfils or rejects (no
  \<^verbatim>\<open>rejectedText\<close> is configured, so the label falls back to \<^verbatim>\<open>defaultText\<close>).
\<close>

lemma scenario_click:
  "btn_text (button save_world) = JStr ''Save''
   \<and> handleClick save_world click_event
       = Inr ((set_state ''pending'' save_world)\<lparr>calls := [0], thens := [1]\<rparr>,
              stopPropagation click_event)
   \<and> btn_text (button (world_of (handleClick save_world click_event))) = JStr ''Saving''
   \<and> isPending (button (world_of (handleClick save_world click_event)))"
  by (simp add: save_scenario handleClick_def isPending_def track_def thenable_def set_state_def
      propagate_def world_of_def btn_text_def js_or_def prop_get_def)

lemma scenario_fulfils:
  "btn_text (button (settle 1 Fulfil (world_of (handleClick save_world click_event))))
     = JStr ''Saved''
   \<and> isFulfilled (button (settle 1 Fulfil (world_of (handleClick save_world click_event))))
   \<and> isSettled (button (settle 1 Fulfil (world_of (handleClick save_world click_event))))"
  by (simp add: save_scenario handleClick_def isPending_def track_def thenable_def set_state_def
      propagate_def world_of_def btn_text_def js_or_def prop_get_def settle_def handler_def
      onFulfilled_def isFulfilled_def isSettled_def)

lemma scenario_rejects:
  "btn_text (button (settle 1 Reject (world_of (handleClick save_world click_event))))
     = JStr ''Save''
   \<and> isRejected (button (settle 1 Reject (world_of (handleClick save_world click_event))))
   \<and> isSettled (button (settle 1 Reject (world_of (handleClick save_world click_event))))"
  by (simp add: save_scenario handleClick_def isPending_def track_def thenable_def set_state_def
      propagate_def world_of_def btn_text_def js_or_def prop_get_def settle_def handler_def
      onRejected_def isRejected_def isSettled_def)

subsection \<open>The click handler of the earlier component\<close>






lemma click_v0_thenable:
  assumes "action_v0 w = Some h" and "h (value_v0 (comp_v0 w)) evt = [JObject (ThenFunction p)]"
  shows "\<exists>w'. click_v0 w evt = Inr w' \<and> textState_v0 (comp_v0 w') = ''pending''
           \<and> thens_v0 w' = thens_v0 w @ [p]
           \<and> isDestroyed_v0 (comp_v0 w') = isDestroyed_v0 (comp_v0 w)"
  using assms
  by (simp add: click_v0_def sendAction_def toggleProperty_active_def callback_v0_def
      set_textState_def Let_def)

subsection \<open>Labels\<close>

lemma text_key_names:
  "map text_key [Idle, Pending, Fulfilled, Rejected]
     = [''defaultText'', ''pendingText'', ''fulfilledText'', ''rejectedText'']"
  by (simp add: text_key_def state_name_def)

text \<open>
  The earlier component's \<^verbatim>\<open>text\<close> falls back to \<^verbatim>\<open>defaultText\<close> only for a label that
  is \<^verbatim>\<open>undefined\<close>; its key for the fulfilled state is \<^verbatim>\<open>resolvedText\<close>.
\<close>

lemma text_v0_defined_or_default:
  "text_v0 b =
     (case props_v0 b (textState_v0 b @ ''Text'') of
        None \<Rightarrow> prop_get (props_v0 b) ''defaultText''
      | Some JUndefined \<Rightarrow> prop_get (props_v0 b) ''defaultText''
      | Some v \<Rightarrow> v)"
  by (simp add: text_v0_def getWithDefault_def prop_get_def split: option.splits js_value.splits)

section \<open>The concurrency guard\<close>

text \<open>
  C1. An activation dispatched while the state is \<^verbatim>\<open>'pending'\<close>, with
  \<^verbatim>\<open>preventConcurrency\<close> true and no \<^verbatim>\<open>_disabled\<close> override that un-disables the button
  (so that \<^verbatim>\<open>__disabled\<close> holds), does not invoke \<^verbatim>\<open>onClick\<close> and leaves the state, and
  the whole component, as it was; the handler returns normally.
\<close>

theorem handleClick_pending_suppressed:
  assumes "preventConcurrency (button w)" and "state (button w) = ''pending''"
    and "u_disabled (button w) \<noteq> Some False"
  shows "uu_disabled (button w)
       \<and> calls (world_of (handleClick w e)) = calls w
       \<and> state (button (world_of (handleClick w e))) = ''pending''
       \<and> world_of (handleClick w e) = w
       \<and> (\<exists>e'. handleClick w e = Inr (w, e'))"
proof -
  have p: "isPending (button w)" using assms(2) by (simp add: isPending_def)
  have d: "uu_disabled (button w)"
    using assms(1,3) p by (cases "u_disabled (button w)") (auto simp: uu_disabled_def)
  from handleClick_guard [OF assms(1) p, of e] d assms(2) show ?thesis by auto
qed

theorem handleClick_pending_suppressed_witness:
  "preventConcurrency (button (set_state ''pending'' save_world))
   \<and> state (button (set_state ''pending'' save_world)) = ''pending''
   \<and> u_disabled (button (set_state ''pending'' save_world)) \<noteq> Some False
   \<and> calls (world_of (handleClick (set_state ''pending'' save_world) click_event)) = []
   \<and> world_of (handleClick (set_state ''pending'' save_world) click_event)
       = set_state ''pending'' save_world"
  using handleClick_pending_suppressed [of "set_state ''pending'' save_world" click_event]
  by (simp add: save_scenario set_state_def)

section \<open>Settlement after teardown\<close>

text \<open>
  C2. A settlement that fires after teardown must change nothing and surface no error.
  The handlers of \<^verbatim>\<open>handleClick\<close> read \<^verbatim>\<open>isDestroyed\<close> first and return
  (\<open>settle_after_teardown\<close>, \<open>settle_torn_down\<close>). The two functions the earlier \<^verbatim>\<open>click\<close>
  passes to \<^verbatim>\<open>promise.then\<close> do not read the flag and call \<^verbatim>\<open>set\<close> on the destroyed
  component: on the star button, clicked, torn down while \<^verbatim>\<open>'pending'\<close> and then settled,
  each handler raises, \<^verbatim>\<open>textState\<close> staying \<^verbatim>\<open>'pending'\<close>; the same settlement without the
  teardown raises nothing and writes \<^verbatim>\<open>'resolved'\<close> or \<^verbatim>\<open>'rejected'\<close>.
\<close>

theorem settle_v0_after_teardown_raises:
  "isDestroyed_v0 (comp_v0 torn_down_v0)
   \<and> thens_v0 torn_down_v0 = [1]
   \<and> textState_v0 (comp_v0 torn_down_v0) = ''pending''
   \<and> raised_v0 torn_down_v0 = []
   \<and> onResolved_v0 torn_down_v0 = Inl (SetOnDestroyed, torn_down_v0)
   \<and> onRejected_v0 torn_down_v0 = Inl (SetOnDestroyed, torn_down_v0)
   \<and> raised_v0 (settle_v0 1 Fulfil torn_down_v0) = [SetOnDestroyed]
   \<and> raised_v0 (settle_v0 1 Reject torn_down_v0) = [SetOnDestroyed]
   \<and> textState_v0 (comp_v0 (settle_v0 1 Fulfil torn_down_v0)) = ''pending''
   \<and> textState_v0 (comp_v0 (settle_v0 1 Reject torn_down_v0)) = ''pending''
   \<and> raised_v0 (settle_v0 1 Fulfil (world_of_v0 (click_v0 star_world click_event))) = []
   \<and> textState_v0 (comp_v0 (settle_v0 1 Fulfil (world_of_v0 (click_v0 star_world click_event))))
       = ''resolved''
   \<and> raised_v0 (settle_v0 1 Reject (world_of_v0 (click_v0 star_world click_event))) = []
   \<and> textState_v0 (comp_v0 (settle_v0 1 Reject (world_of_v0 (click_v0 star_world click_event))))
       = ''rejected''"
  by (simp add: click_event_def star_button_def star_world_def torn_down_v0_def destroy_v0_def
      world_of_v0_def click_v0_def sendAction_def toggleProperty_active_def callback_v0_def
      set_textState_def settle_v0_def run_handler_v0_def handler_v0_def onResolved_v0_def
      onRejected_v0_def set_v0_def)

section \<open>The disabled override\<close>

text \<open>
  C3, as amended. With \<^verbatim>\<open>_disabled\<close> set to true the getter \<^verbatim>\<open>__disabled\<close> is true in
  every state, Idle included, but \<^verbatim>\<open>handleClick\<close> does not read it: with a callback
  configured, an activation that reaches the handler leaves the callback uninvoked
  exactly when \<^verbatim>\<open>preventConcurrency\<close> is true and the state is \<^verbatim>\<open>'pending'\<close>, and then
  nothing changes.
\<close>

theorem handleClick_ignores_disabled_override:
  assumes "u_disabled (button w) = Some True" and "onClick (button w) = OnClickFn f"
  shows "uu_disabled (button w)
       \<and> (calls (world_of (handleClick w e)) = calls w
            \<longleftrightarrow> preventConcurrency (button w) \<and> isPending (button w))
       \<and> (preventConcurrency (button w) \<and> isPending (button w)
            \<longrightarrow> world_of (handleClick w e) = w)"
proof -
  have 1: "uu_disabled (button w)" using assms by (simp add: uu_disabled_def)
  have 2: "calls (world_of (handleClick w e)) = calls w
            \<longleftrightarrow> preventConcurrency (button w) \<and> isPending (button w)"
  proof (cases "preventConcurrency (button w) \<and> isPending (button w)")
    case True
    with assms show ?thesis by (simp add: handleClick_def world_of_def)
  next
    case False
    with handleClick_invokes [OF assms(2), of e] show ?thesis by simp
  qed
  have 3: "preventConcurrency (button w) \<and> isPending (button w)
            \<longrightarrow> world_of (handleClick w e) = w"
    using assms by (simp add: handleClick_def world_of_def)
  from 1 2 3 show ?thesis by blast
qed

text \<open>
  C3, witness: the save button with the override set to true, clicked from Idle (the
  callback is invoked) and clicked while pending (nothing changes).
\<close>

theorem handleClick_ignores_disabled_override_witness:
  "u_disabled (button disabled_world) = Some True
   \<and> uu_disabled (button disabled_world)
   \<and> \<not> isPending (button disabled_world)
   \<and> calls (world_of (handleClick disabled_world click_event)) \<noteq> calls disabled_world
   \<and> world_of (handleClick (set_state ''pending'' disabled_world) click_event)
       = set_state ''pending'' disabled_world"
  using handleClick_ignores_disabled_override
          [of disabled_world "\<lambda>v. Returns (JObject (ThenFunction 1)) False" click_event]
        handleClick_ignores_disabled_override
          [of "set_state ''pending'' disabled_world"
              "\<lambda>v. Returns (JObject (ThenFunction 1)) False" click_event]
  by (simp add: save_scenario disabled_world_def set_state_def isPending_def)

text \<open>
  C3, counterexample to the statement as written: with the override true and the
  state Idle, \<^verbatim>\<open>handleClick\<close> invokes the callback with the value 0 and moves the state
  to \<^verbatim>\<open>'pending'\<close>.
\<close>

theorem disabled_override_click_counterexample:
  "u_disabled (button disabled_world) = Some True
   \<and> uu_disabled (button disabled_world)
   \<and> state (button disabled_world) = ''default''
   \<and> calls disabled_world = []
   \<and> handleClick disabled_world click_event
       = Inr ((set_state ''pending'' disabled_world)\<lparr>calls := [0], thens := [1]\<rparr>,
              stopPropagation click_event)"
  by (simp add: save_scenario disabled_world_def handleClick_def isPending_def track_def
      thenable_def
      set_state_def propagate_def uu_disabled_def)

section \<open>Toggle\<close>



section \<open>Event propagation\<close>

text \<open>
  C5, as amended. When an \<^verbatim>\<open>onClick\<close> callback is configured and \<^verbatim>\<open>bubble\<close> is false,
  \<^verbatim>\<open>handleClick\<close> calls \<^verbatim>\<open>stopPropagation\<close> on the event on every branch on which it
  returns: the callback returned a future-like value, it returned any other value, or
  the dispatch was suppressed by the concurrency guard.
\<close>

theorem handleClick_stops_propagation:
  assumes "\<not> bubble (button w)" and "onClick (button w) = OnClickFn f"
    and "(preventConcurrency (button w) \<and> isPending (button w))
         \<or> f (btn_value (button w)) \<noteq> Throws"
  shows "\<exists>w'. handleClick w e = Inr (w', stopPropagation e)"
proof (cases "preventConcurrency (button w) \<and> isPending (button w)")
  case True
  with assms show ?thesis by (simp add: handleClick_def propagate_def)
next
  case False
  with assms obtain v d where "f (btn_value (button w)) = Returns v d"
    by (cases "f (btn_value (button w))") auto
  with False assms show ?thesis
    by (auto simp: handleClick_def propagate_def Let_def bubble_track)
qed

text \<open>
  C5, witness: the save button clicked from Idle (a promise is returned), the same
  button with a callback that returns \<^verbatim>\<open>undefined\<close>, and the save button clicked while
  pending (suppressed).
\<close>

theorem handleClick_stops_propagation_witness:
  "\<not> bubble (button save_world)
   \<and> handleClick save_world click_event
       = Inr ((set_state ''pending'' save_world)\<lparr>calls := [0], thens := [1]\<rparr>,
              stopPropagation click_event)
   \<and> handleClick plain_world click_event
       = Inr (plain_world\<lparr>calls := [0]\<rparr>, stopPropagation click_event)
   \<and> handleClick (set_state ''pending'' save_world) click_event
       = Inr (set_state ''pending'' save_world, stopPropagation click_event)"
  using handleClick_stops_propagation
          [of save_world "\<lambda>v. Returns (JObject (ThenFunction 1)) False" click_event]
        handleClick_stops_propagation
          [of plain_world "\<lambda>v. Returns JUndefined False" click_event]
        handleClick_stops_propagation
          [of "set_state ''pending'' save_world"
              "\<lambda>v. Returns (JObject (ThenFunction 1)) False" click_event]
  by (simp add: save_scenario plain_world_def handleClick_def isPending_def track_def
      thenable_def
      set_state_def propagate_def)

text \<open>
  C5, counterexample to the statement as written: with \<^verbatim>\<open>bubble\<close> false and no
  callback configured, the handler returns the event untouched.
\<close>

theorem no_callback_click_counterexample:
  "\<not> bubble (button no_callback_world)
   \<and> handleClick no_callback_world click_event = Inr (no_callback_world, click_event)
   \<and> \<not> propagationStopped click_event
   \<and> click_event \<noteq> stopPropagation click_event"
  by (simp add: save_scenario no_callback_world_def handleClick_def stopPropagation_def)

section \<open>Label and icon\<close>

text \<open>
  C6, as amended. For each of the four states S, \<^verbatim>\<open>text\<close> is the label configured under
  the state's key when that label is truthy (a non-empty string), and \<^verbatim>\<open>defaultText\<close>
  when the label is absent or falsy (the empty string).
\<close>

theorem btn_text_truthy_label_or_default:
  assumes "state b = state_name S"
  shows "(\<forall>v. args b (text_key S) = Some v \<and> truthy v \<longrightarrow> btn_text b = v)
       \<and> (args b (text_key S) = None \<or> (\<exists>v. args b (text_key S) = Some v \<and> \<not> truthy v)
            \<longrightarrow> btn_text b = prop_get (args b) ''defaultText'')"
  using assms by (auto simp: btn_text_def text_key_def js_or_def prop_get_def)

text \<open>
  C6, witness: scenarios A and B (\<^verbatim>\<open>pendingText\<close> configured, \<^verbatim>\<open>rejectedText\<close> absent)
  and a \<^verbatim>\<open>pendingText\<close> that is the empty string.
\<close>

theorem btn_text_truthy_label_or_default_witness:
  "state (save_button\<lparr>state := ''pending''\<rparr>) = state_name Pending
   \<and> btn_text (save_button\<lparr>state := ''pending''\<rparr>) = JStr ''Saving''
   \<and> state (save_button\<lparr>state := ''rejected''\<rparr>) = state_name Rejected
   \<and> btn_text (save_button\<lparr>state := ''rejected''\<rparr>) = JStr ''Save''
   \<and> state empty_label_button = state_name Pending
   \<and> btn_text empty_label_button = JStr ''Save''"
  using btn_text_truthy_label_or_default [of "save_button\<lparr>state := ''pending''\<rparr>" Pending]
        btn_text_truthy_label_or_default [of "save_button\<lparr>state := ''rejected''\<rparr>" Rejected]
        btn_text_truthy_label_or_default [of empty_label_button Pending]
  by (simp add: save_scenario empty_label_button_def state_name_def text_key_def prop_get_def)

text \<open>
  C6, counterexample to the statement as written: \<^verbatim>\<open>pendingText\<close> is configured, as the
  empty string, and the text in the pending state is \<^verbatim>\<open>defaultText\<close>.
\<close>

theorem empty_label_counterexample:
  "state empty_label_button = ''pending''
   \<and> args empty_label_button ''pendingText'' = Some (JStr [])
   \<and> btn_text empty_label_button = JStr ''Save''
   \<and> btn_text empty_label_button \<noteq> JStr []"
  by (simp add: save_scenario empty_label_button_def btn_text_def js_or_def prop_get_def)

text \<open>
  C7, as amended. \<^verbatim>\<open>icon\<close> is the \<^verbatim>\<open>icon\<close> argument whenever that argument is truthy (a
  non-empty string); when it is absent or falsy, \<^verbatim>\<open>icon\<close> is \<^verbatim>\<open>iconActive\<close> if \<^verbatim>\<open>active\<close>
  is true and \<^verbatim>\<open>iconInactive\<close> if it is false.
\<close>

theorem icon_truthy_override_or_active:
  "(\<forall>v. args b ''icon'' = Some v \<and> truthy v \<longrightarrow> icon b = v)
   \<and> (args b ''icon'' = None \<or> (\<exists>v. args b ''icon'' = Some v \<and> \<not> truthy v)
        \<longrightarrow> (active b \<longrightarrow> icon b = iconActive b) \<and> (\<not> active b \<longrightarrow> icon b = iconInactive b))"
  by (auto simp: icon_def js_or_def prop_get_def)

text \<open>
  C7, witness: an override, no override on an active and on an inactive button, and
  an override that is the empty string.
\<close>

theorem icon_truthy_override_or_active_witness:
  "icon (save_button\<lparr>args := [''icon'' \<mapsto> JStr ''glyphicon''], iconActive := JStr ''star-filled''\<rparr>)
     = JStr ''glyphicon''
   \<and> icon (save_button\<lparr>active := True, iconActive := JStr ''star-filled''\<rparr>) = JStr ''star-filled''
   \<and> icon (save_button\<lparr>iconInactive := JStr ''star-empty''\<rparr>) = JStr ''star-empty''
   \<and> icon empty_icon_button = JStr ''star-filled''"
  using icon_truthy_override_or_active
          [of "save_button\<lparr>args := [''icon'' \<mapsto> JStr ''glyphicon''],
                           iconActive := JStr ''star-filled''\<rparr>"]
        icon_truthy_override_or_active
          [of "save_button\<lparr>active := True, iconActive := JStr ''star-filled''\<rparr>"]
        icon_truthy_override_or_active
          [of "save_button\<lparr>iconInactive := JStr ''star-empty''\<rparr>"]
        icon_truthy_override_or_active [of empty_icon_button]
  by (simp add: save_scenario empty_icon_button_def)

text \<open>
  C7, counterexample to the statement as written: the \<^verbatim>\<open>icon\<close> argument is set, to the
  empty string, and the icon of the active button is \<^verbatim>\<open>iconActive\<close>.
\<close>

theorem empty_icon_counterexample:
  "args empty_icon_button ''icon'' = Some (JStr [])
   \<and> active empty_icon_button
   \<and> icon empty_icon_button = JStr ''star-filled''
   \<and> icon empty_icon_button \<noteq> JStr []"
  by (simp add: save_scenario empty_icon_button_def icon_def js_or_def prop_get_def)

section \<open>Reset\<close>

text \<open>
  C8. Whatever the current state S is (Idle, Pending, Fulfilled, Rejected), the reset
  operation leaves the state Idle (\<^verbatim>\<open>'default'\<close>) and touches nothing else, and
  resetting again immediately changes nothing. This holds for \<^verbatim>\<open>resetState\<close> of both
  components, and for the earlier component's observer when the \<^verbatim>\<open>reset\<close> signal is
  \<^verbatim>\<open>true\<close>.
\<close>

theorem resetState_idle_idempotent:
  "state (resetState (b\<lparr>state := state_name S\<rparr>)) = state_name (reset S)
   \<and> state (resetState (resetState (b\<lparr>state := state_name S\<rparr>))) = state_name Idle
   \<and> resetState (resetState b) = resetState b
   \<and> resetState b = b\<lparr>state := ''default''\<rparr>
   \<and> textState_v0 (resetState_v0 (c\<lparr>textState_v0 := textState_name S\<rparr>)) = textState_name (reset S)
   \<and> resetState_v0 (resetState_v0 c) = resetState_v0 c
   \<and> resetState_v0 c = c\<lparr>textState_v0 := ''default''\<rparr>
   \<and> resetObserver_v0 (c\<lparr>reset_v0 := JBool True\<rparr>) = resetState_v0 (c\<lparr>reset_v0 := JBool True\<rparr>)"
  by (simp add: resetState_def resetState_v0_def resetObserver_v0_def state_name_def
      textState_name_def reset_def)

section \<open>The two calling conventions\<close>

text \<open>
  C9. Let the newer handler be given a callback that returns a future, on a live
  component and not suppressed by the concurrency guard, and let the earlier handler,
  on a live component too, be given an action that passes the same future to its
  \<^verbatim>\<open>callback\<close>. Then both dispatches
  return, both states are what \<open>transitionToPending\<close> yields, and when the future
  settles both states are what \<open>settleFulfilled\<close> (on success) or \<open>settleRejected\<close> (on
  failure) yields, each component under its own names for the four states.
\<close>

theorem dispatch_conventions_same_sequence:
  assumes "\<not> isDestroyed (button w)" and "onClick (button w) = OnClickFn f"
    and "f (btn_value (button w)) = Returns (JObject (ThenFunction p)) False"
    and "\<not> (preventConcurrency (button w) \<and> isPending (button w))"
    and "action_v0 w0 = Some h" and "h (value_v0 (comp_v0 w0)) evt = [JObject (ThenFunction p)]"
    and "\<not> isDestroyed_v0 (comp_v0 w0)"
  shows "\<exists>w' e' w0'.
           handleClick w e = Inr (w', e') \<and> click_v0 w0 evt = Inr w0'
         \<and> state (button w') = state_name (transitionToPending S)
         \<and> textState_v0 (comp_v0 w0') = textState_name (transitionToPending S)
         \<and> state (button (settle p s w')) = state_name (settled s (transitionToPending S))
         \<and> textState_v0 (comp_v0 (settle_v0 p s w0'))
             = textState_name (settled s (transitionToPending S))"
proof -
  define w' where "w' = (set_state ''pending'' w)\<lparr>calls := calls w @ [btn_value (button w)],
                                                  thens := thens w @ [p]\<rparr>"
  have hc: "handleClick w e = Inr (w', propagate w e)"
    unfolding w'_def using assms(1-4) by (rule handleClick_thenable)
  have live: "\<not> isDestroyed (button w')" and reg: "p \<in> set (thens w')"
    and st: "state (button w') = ''pending''"
    using assms(1) by (simp_all add: w'_def set_state_def)
  obtain w0' where c0: "click_v0 w0 evt = Inr w0'"
    and st0: "textState_v0 (comp_v0 w0') = ''pending''"
    and reg0: "p \<in> set (thens_v0 w0')"
    and live0: "\<not> isDestroyed_v0 (comp_v0 w0')"
    using click_v0_thenable [OF assms(5,6)] assms(7) by auto
  have "state (button (settle p s w')) = state_name (settled s (transitionToPending S))"
    using settle_live_registered [OF live reg, of s]
    by (simp add: state_name_def settled_def settleFulfilled_def settleRejected_def
        split: settlement.splits)
  moreover have "textState_v0 (comp_v0 (settle_v0 p s w0'))
             = textState_name (settled s (transitionToPending S))"
    using settle_v0_registered [OF live0 reg0, of s]
    by (simp add: textState_name_def settled_def settleFulfilled_def settleRejected_def
        split: settlement.splits)
  moreover have "state (button w') = state_name (transitionToPending S)"
    using st by (simp add: state_name_def transitionToPending_def)
  moreover have "textState_v0 (comp_v0 w0') = textState_name (transitionToPending S)"
    using st0 by (simp add: textState_name_def transitionToPending_def)
  ultimately show ?thesis using hc c0 by blast
qed

text \<open>
  C9, witness: scenarios A and B on the save button, beside the star button whose
  action passes the same promise on.
\<close>

theorem dispatch_conventions_same_sequence_witness:
  "\<not> isDestroyed (button save_world)
   \<and> \<not> (preventConcurrency (button save_world) \<and> isPending (button save_world))
   \<and> \<not> isDestroyed_v0 (comp_v0 star_world)
   \<and> state (button (world_of (handleClick save_world click_event))) = ''pending''
   \<and> textState_v0 (comp_v0 (world_of_v0 (click_v0 star_world click_event))) = ''pending''
   \<and> state (button (settle 1 Fulfil (world_of (handleClick save_world click_event))))
       = ''fulfilled''
   \<and> textState_v0 (comp_v0 (settle_v0 1 Fulfil (world_of_v0 (click_v0 star_world click_event))))
       = ''resolved''
   \<and> state (button (settle 1 Reject (world_of (handleClick save_world click_event))))
       = ''rejected''
   \<and> textState_v0 (comp_v0 (settle_v0 1 Reject (world_of_v0 (click_v0 star_world click_event))))
       = ''rejected''"
  using dispatch_conventions_same_sequence
          [of save_world "\<lambda>v. Returns (JObject (ThenFunction 1)) False" 1 star_world
              "\<lambda>v evt. [JObject (ThenFunction 1)]" click_event click_event Idle Fulfil]
        dispatch_conventions_same_sequence
          [of save_world "\<lambda>v. Returns (JObject (ThenFunction 1)) False" 1 star_world
              "\<lambda>v evt. [JObject (ThenFunction 1)]" click_event click_event Idle Reject]
  by (auto simp: save_scenario star_button_def star_world_def isPending_def world_of_def
      world_of_v0_def state_name_def
      textState_name_def settled_def settleFulfilled_def settleRejected_def
      transitionToPending_def)

section \<open>No callback configured\<close>

text \<open>
  C10. When \<^verbatim>\<open>onClick\<close> is \<^verbatim>\<open>null\<close> or \<^verbatim>\<open>undefined\<close> the handler returns at once: the
  component, its state included, is unchanged and the event is returned as it came, so
  \<^verbatim>\<open>stopPropagation\<close> has not been called, whatever \<^verbatim>\<open>bubble\<close> is.
\<close>

theorem handleClick_without_onClick:
  assumes "onClick (button w) = OnClickNull \<or> onClick (button w) = OnClickUndefined"
  shows "handleClick w e = Inr (w, e)"
  using assms by (auto simp: handleClick_def)

text \<open>C10, witness: the save button without a callback, \<^verbatim>\<open>bubble\<close> false.\<close>

theorem handleClick_without_onClick_witness:
  "onClick (button no_callback_world) = OnClickNull
   \<and> onClick (button undefined_callback_world) = OnClickUndefined
   \<and> \<not> bubble (button no_callback_world)
   \<and> \<not> bubble (button undefined_callback_world)
   \<and> handleClick no_callback_world click_event = Inr (no_callback_world, click_event)
   \<and> handleClick undefined_callback_world click_event
       = Inr (undefined_callback_world, click_event)
   \<and> \<not> propagationStopped click_event"
  using handleClick_without_onClick [of no_callback_world click_event]
        handleClick_without_onClick [of undefined_callback_world click_event]
  by (simp add: save_scenario no_callback_world_def undefined_callback_world_def)

end
